theory Spec2Isabelle
  imports Main "HOL-Library.Char_ord" "HOL-Library.List_Lexorder" "HOL-Library.AList"
begin

section \<open>Text and path primitives used by the script\<close>

text \<open>
  The script is Python 3 on a POSIX file system. A Python \<open>str\<close> is a sequence of code
  points; it is modelled as a \<^typ>\<open>string\<close> whose characters are the code points below
  256. All library functions embedded here (\<open>str.lower\<close>, \<open>str.strip\<close>,
  \<open>os.path.splitext\<close>, \<open>os.path.basename\<close>, \<open>os.path.dirname\<close>, \<open>os.path.join\<close>,
  \<open>re.findall\<close>) work code point by code point, and they are written out for that range.
\<close>

definition dq :: char where "dq = CHR 0x22"   \<comment> \<open>the double quote\<close>
definition sq :: char where "sq = CHR 0x27"   \<comment> \<open>the single quote\<close>
definition bs :: char where "bs = CHR 0x5C"   \<comment> \<open>the backslash\<close>
definition nl :: char where "nl = CHR 0x0A"   \<comment> \<open>the line feed\<close>

definition isspace :: "char \<Rightarrow> bool" where
  \<comment> \<open>\<open>str.isspace\<close> on one code point, which is also what \<open>\s\<close> matches in a \<open>str\<close> pattern:
      TAB, LF, VT, FF, CR, FS, GS, RS, US, SPACE, NEL and NBSP.\<close>
  "isspace c = (let n = (of_char c :: nat) in
     (9 \<le> n \<and> n \<le> 13) \<or> (28 \<le> n \<and> n \<le> 32) \<or> n = 133 \<or> n = 160)"

definition lower_char :: "char \<Rightarrow> char" where
  \<comment> \<open>\<open>str.lower\<close> on one code point below 256: A-Z and the Latin-1 capitals
      (0xC0-0xDE without the multiplication sign 0xD7) move up by 32.\<close>
  "lower_char c = (let n = (of_char c :: nat) in
     if (65 \<le> n \<and> n \<le> 90) \<or> (192 \<le> n \<and> n \<le> 222 \<and> n \<noteq> 215)
     then char_of (n + 32) else c)"

definition str_lower :: "string \<Rightarrow> string" where
  "str_lower s = map lower_char s"

definition str_strip :: "string \<Rightarrow> string" where
  \<comment> \<open>\<open>str.strip()\<close>: leading and trailing white space removed.\<close>
  "str_strip s = rev (dropWhile isspace (rev (dropWhile isspace s)))"

fun str_join :: "string \<Rightarrow> string list \<Rightarrow> string" where
  \<comment> \<open>\<open>sep.join(xs)\<close>\<close>
  "str_join sep [] = []"
| "str_join sep [x] = x"
| "str_join sep (x # y # ys) = x @ sep @ str_join sep (y # ys)"

fun digit_char :: "nat \<Rightarrow> char" where
  "digit_char n = char_of (48 + n mod 10)"

fun str_nat :: "nat \<Rightarrow> string" where
  \<comment> \<open>\<open>str(n)\<close> for a non-negative integer (decimal, no leading zero).\<close>
  "str_nat n = (if n < 10 then [digit_char n] else str_nat (n div 10) @ [digit_char n])"

declare str_nat.simps [simp del]

fun index_of :: "char \<Rightarrow> string \<Rightarrow> nat" where
  \<comment> \<open>position of the first occurrence, or the length when there is none\<close>
  "index_of c [] = 0"
| "index_of c (x # xs) = (if x = c then 0 else Suc (index_of c xs))"

definition rfind :: "string \<Rightarrow> char \<Rightarrow> int" where
  \<comment> \<open>\<open>p.rfind(c)\<close>: position of the last occurrence, or -1\<close>
  "rfind p c = (if c \<in> set p then int (length p) - 1 - int (index_of c (rev p)) else - 1)"

definition slice :: "string \<Rightarrow> int \<Rightarrow> int \<Rightarrow> string" where
  \<comment> \<open>\<open>p[i:j]\<close> for \<open>0 \<le> i\<close>\<close>
  "slice p i j = take (nat j - nat i) (drop (nat i) p)"

definition splitext :: "string \<Rightarrow> string \<times> string" where
  \<comment> \<open>\<open>posixpath.splitext\<close>: the extension starts at the last dot after the last slash,
      unless only dots lie between that slash and that dot (a leading-dot name).\<close>
  "splitext p =
     (let sepIndex = rfind p CHR ''/'';
          dotIndex = rfind p CHR ''.''
      in if dotIndex > sepIndex \<and> list_ex (\<lambda>c. c \<noteq> CHR ''.'') (slice p (sepIndex + 1) dotIndex)
         then (take (nat dotIndex) p, drop (nat dotIndex) p)
         else (p, []))"

definition basename :: "string \<Rightarrow> string" where
  \<comment> \<open>\<open>posixpath.basename\<close>: what follows the last slash\<close>
  "basename p = drop (nat (rfind p CHR ''/'' + 1)) p"

definition rstrip_slash :: "string \<Rightarrow> string" where
  "rstrip_slash s = rev (dropWhile (\<lambda>c. c = CHR ''/'') (rev s))"

definition dirname :: "string \<Rightarrow> string" where
  \<comment> \<open>\<open>posixpath.dirname\<close>: what precedes the last slash, trailing slashes removed unless
      the head consists of slashes only\<close>
  "dirname p =
     (let head = take (nat (rfind p CHR ''/'' + 1)) p
      in if head \<noteq> [] \<and> head \<noteq> replicate (length head) CHR ''/'' then rstrip_slash head
         else head)"

definition path_join :: "string \<Rightarrow> string \<Rightarrow> string" where
  \<comment> \<open>\<open>posixpath.join(a, b)\<close>\<close>
  "path_join a b =
     (if b \<noteq> [] \<and> hd b = CHR ''/'' then b
      else if a = [] \<or> last a = CHR ''/'' then a @ b
      else a @ ''/'' @ b)"

section \<open>Regular expressions: the fragment of \<open>re\<close> the two patterns need\<close>

datatype cls = Ch char | Ws   \<comment> \<open>a member of a bracket set: one character, or \<open>\s\<close>\<close>

fun in_cls :: "char \<Rightarrow> cls \<Rightarrow> bool" where
  "in_cls x (Ch c) = (x = c)"
| "in_cls x Ws = isspace x"

datatype regex =
    Eps                     \<comment> \<open>the empty pattern\<close>
  | Lit string              \<comment> \<open>literal text\<close>
  | In "cls list"           \<comment> \<open>\<open>[...]\<close>, and \<open>\s\<close> as \<open>In [Ws]\<close>\<close>
  | NotIn "cls list"        \<comment> \<open>\<open>[^...]\<close>\<close>
  | Seq regex regex         \<comment> \<open>concatenation\<close>
  | Alt regex regex         \<comment> \<open>\<open>a|b\<close>, the left branch tried first\<close>
  | Opt regex               \<comment> \<open>greedy \<open>a?\<close>\<close>
  | Star regex              \<comment> \<open>greedy \<open>a*\<close>\<close>
  | Group nat regex         \<comment> \<open>capturing group with its number\<close>

type_synonym caps = "(nat \<times> string) list"

text \<open>
  \<open>matches r s c\<close> lists every way the backtracking matcher can match \<open>r\<close> at the start of
  \<open>s\<close>, in the order in which the matcher tries them: the text that is left and the groups
  captured. The matcher of \<open>re\<close> returns the first of them.
\<close>

fun matches :: "regex \<Rightarrow> string \<Rightarrow> caps \<Rightarrow> (string \<times> caps) list" where
  "matches Eps s c = [(s, c)]"
| "matches (Lit t) s c = (if take (length t) s = t then [(drop (length t) s, c)] else [])"
| "matches (In cs) s c =
     (case s of [] \<Rightarrow> [] | x # s' \<Rightarrow> if list_ex (in_cls x) cs then [(s', c)] else [])"
| "matches (NotIn cs) s c =
     (case s of [] \<Rightarrow> [] | x # s' \<Rightarrow> if list_ex (in_cls x) cs then [] else [(s', c)])"
| "matches (Seq r1 r2) s c = concat (map (\<lambda>m. matches r2 (fst m) (snd m)) (matches r1 s c))"
| "matches (Alt r1 r2) s c = matches r1 s c @ matches r2 s c"
| "matches (Opt r) s c = matches r s c @ [(s, c)]"
| "matches (Star r) s c =
     concat (map (\<lambda>m. if length (fst m) < length s then matches (Star r) (fst m) (snd m) else [])
                 (matches r s c)) @ [(s, c)]"
| "matches (Group n r) s c =
     map (\<lambda>m. (fst m, (n, take (length s - length (fst m)) s) # snd m)) (matches r s c)"

definition Plus :: "regex \<Rightarrow> regex" where
  \<comment> \<open>greedy \<open>a+\<close>\<close>
  "Plus r = Seq r (Star r)"

definition seq :: "regex list \<Rightarrow> regex" where
  "seq rs = foldr Seq rs Eps"

definition group :: "caps \<Rightarrow> nat \<Rightarrow> string" where
  \<comment> \<open>the text of group \<open>n\<close> as \<open>re.findall\<close> reports it: empty when the group took no part\<close>
  "group c n = (case map_of c n of None \<Rightarrow> [] | Some t \<Rightarrow> t)"

function findall :: "regex \<Rightarrow> string \<Rightarrow> caps list" where
  \<comment> \<open>\<open>re.findall\<close>: the matches found scanning from left to right, each search starting
      where the previous match ended (one character further after an empty match)\<close>
  "findall r s =
     (case matches r s [] of
        [] \<Rightarrow> (case s of [] \<Rightarrow> [] | x # t \<Rightarrow> findall r t)
      | m # ms \<Rightarrow> snd m #
          (if length (fst m) < length s then findall r (fst m)
           else (case s of [] \<Rightarrow> [] | x # t \<Rightarrow> findall r t)))"
  by pat_completeness auto
termination
  by (relation "measure (\<lambda>(r, s). length s)") auto

declare findall.simps [simp del]

definition PHP_INCLUDE_PATTERN :: regex where
  \<comment> \<open>\<open>(include|require)(_once)?\s*\(?['"]([^'"]+)['"]\)?\<close>\<close>
  "PHP_INCLUDE_PATTERN = seq
     [Group 1 (Alt (Lit ''include'') (Lit ''require'')),
      Opt (Group 2 (Lit ''_once'')),
      Star (In [Ws]),
      Opt (Lit ''(''),
      In [Ch sq, Ch dq],
      Group 3 (Plus (NotIn [Ch sq, Ch dq])),
      In [Ch sq, Ch dq],
      Opt (Lit '')'')]"

definition SQL_INCLUDE_PATTERN :: regex where
  \<comment> \<open>\<open>\\i\s+([^;\s]+)\<close>: a backslash, the letter i, white space, the captured token\<close>
  "SQL_INCLUDE_PATTERN = seq
     [Lit [bs, CHR ''i''],
      Plus (In [Ws]),
      Group 1 (Plus (NotIn [Ch CHR '';'', Ws]))]"

section \<open>The Reference Scanner\<close>

definition find_references_in_content :: "string \<Rightarrow> string \<Rightarrow> string list" where
  "find_references_in_content file_path content =
     (let ext = str_lower (snd (splitext file_path))
      in if ext = ''.php'' then map (\<lambda>m. group m 3) (findall PHP_INCLUDE_PATTERN content)
         else if ext = ''.sql'' then map (\<lambda>m. str_strip (group m 1)) (findall SQL_INCLUDE_PATTERN content)
         else [])"

section \<open>Dictionaries, errors and the effects of a run\<close>

text \<open>
  A Python \<open>dict\<close> keeps its keys in insertion order; it is an association list whose
  keys are distinct. \<open>d[k] = v\<close> is \<^const>\<open>AList.update\<close>: the value is replaced in place
  when the key is present, and the pair is appended otherwise.
\<close>

datatype error =
    OSError string      \<comment> \<open>a file-system call failed on that path\<close>
  | ServiceError        \<comment> \<open>network failure, non-success status or malformed response\<close>
  | KeyError string     \<comment> \<open>a dictionary has no such key\<close>
  | TypeError           \<comment> \<open>\<open>file.write\<close> was given something that is not a \<open>str\<close>\<close>
  | AttributeError      \<comment> \<open>\<open>.strip()\<close> was called on something that is not a \<open>str\<close>\<close>

text \<open>
  What \<open>generate_documentation_with_openai\<close> returns when it does not raise: the value of
  \<open>completion["choices"][0]["message"]["content"]\<close>, which the function hands on unchecked.
  It is a JSON string or another JSON value (\<open>null\<close>, a number, a boolean, an array, an
  object). The script prints none of these values; it writes them to a file and calls
  \<open>.strip()\<close> on them, and both steps raise on every value that is not a \<open>str\<close>.
\<close>

datatype reply =
    Str string          \<comment> \<open>a text\<close>
  | NotStr              \<comment> \<open>\<open>None\<close> or another value that is not a \<open>str\<close>\<close>

definition dict_keys :: "('k \<times> 'v) list \<Rightarrow> 'k list" where
  "dict_keys d = map fst d"

definition dict_getitem :: "(string \<times> 'v) list \<Rightarrow> string \<Rightarrow> error + 'v" where
  \<comment> \<open>\<open>d[k]\<close>\<close>
  "dict_getitem d k = (case map_of d k of None \<Rightarrow> Inl (KeyError k) | Some v \<Rightarrow> Inr v)"

definition dict_get :: "('k \<times> 'v) list \<Rightarrow> 'k \<Rightarrow> 'v \<Rightarrow> 'v" where
  \<comment> \<open>\<open>d.get(k, default)\<close>\<close>
  "dict_get d k dflt = (case map_of d k of None \<Rightarrow> dflt | Some v \<Rightarrow> v)"

datatype line =
    Text string              \<comment> \<open>a printed line\<close>
  | Failed string error      \<comment> \<open>the line \<open>Failed to process file {file_path}: {e}\<close>\<close>

text \<open>
  What a run can observe and change: the text files (a path that is absent cannot be
  opened or decoded), the lines printed, the requests posted to the remote service (with
  the file they were made for), and the files the run opened or tried to open for writing,
  each with the text the run had for it (no text when the content was not a \<open>str\<close>).
\<close>

record world =
  fs :: "string \<rightharpoonup> string"
  console :: "line list"
  api_calls :: "(string \<times> string) list"
  writes :: "(string \<times> string) list"

text \<open>The two dictionaries that \<open>main\<close> accumulates, next to the world.\<close>

record run = world +
  file_docs :: "(string \<times> reply) list"
  file_references :: "(string \<times> string list) list"

text \<open>
  What the run does not control: the directory walk \<open>os.walk\<close> reports, the answer of the
  remote service to the \<open>n\<close>-th request of the run, the directories \<open>os.makedirs\<close> fails
  on and the paths that cannot be opened for writing.
\<close>

record env =
  walk :: "string \<Rightarrow> (string \<times> string list \<times> string list) list"
  service :: "nat \<Rightarrow> string \<Rightarrow> error + reply"
  makedirs_fails :: "string \<Rightarrow> bool"
  write_denied :: "string \<Rightarrow> bool"

definition print :: "string \<Rightarrow> ('a world_scheme) \<Rightarrow> ('a world_scheme)" where
  "print msg w = w\<lparr>console := console w @ [Text msg]\<rparr>"

definition text_of :: "reply \<Rightarrow> string" where
  \<comment> \<open>the text a write leaves in the file: nothing when the content is not a \<open>str\<close>\<close>
  "text_of content = (case content of Str t \<Rightarrow> t | NotStr \<Rightarrow> [])"

definition write_file :: "env \<Rightarrow> string \<Rightarrow> reply \<Rightarrow> ('a world_scheme) \<Rightarrow> (error + unit) \<times> ('a world_scheme)" where
  \<comment> \<open>\<open>with open(path, "w", encoding="utf-8") as file: file.write(content)\<close>: \<open>open\<close>
      empties the file, then \<open>write\<close> raises \<open>TypeError\<close> when the content is not a \<open>str\<close>\<close>
  "write_file env path content w =
     (let w' = w\<lparr>writes := writes w @ [(path, text_of content)]\<rparr>
      in if write_denied env path then (Inl (OSError path), w')
         else (case content of
                 Str t \<Rightarrow> (Inr (), w'\<lparr>fs := (fs w')(path \<mapsto> t)\<rparr>)
               | NotStr \<Rightarrow> (Inl TypeError, w'\<lparr>fs := (fs w')(path \<mapsto> [])\<rparr>)))"

section \<open>Configuration\<close>

definition LOCAL_REPO_PATH :: string where "LOCAL_REPO_PATH = ''./''"

definition FILE_EXTENSIONS :: "string list" where
  "FILE_EXTENSIONS = [''.sql'', ''.sh'', ''.php'']"

definition OVERVIEW_FILENAME :: string where "OVERVIEW_FILENAME = ''PROJECT_OVERVIEW.md''"

section \<open>Helper functions\<close>

definition traverse_local_files :: "env \<Rightarrow> string \<Rightarrow> string list" where
  "traverse_local_files env path =
     concat (map (\<lambda>(root, dirs, files). map (\<lambda>file. path_join root file) files) (walk env path))"

definition read_file_content :: "('a world_scheme) \<Rightarrow> string \<Rightarrow> error + string" where
  "read_file_content w path = (case fs w path of None \<Rightarrow> Inl (OSError path) | Some text \<Rightarrow> Inr text)"

definition output_path :: "string \<Rightarrow> string \<Rightarrow> string" where
  \<comment> \<open>the first three lines of \<open>save_file_in_same_directory\<close>\<close>
  "output_path original_file_path suffix =
     (let base_dir = dirname original_file_path;
          base_name = fst (splitext (basename original_file_path))
      in path_join base_dir (base_name @ suffix))"

definition save_file_in_same_directory ::
  "env \<Rightarrow> string \<Rightarrow> reply \<Rightarrow> string \<Rightarrow> ('a world_scheme) \<Rightarrow> (error + string) \<times> ('a world_scheme)" where
  \<comment> \<open>\<open>os.makedirs('')\<close> raises \<open>FileNotFoundError\<close>\<close>
  "save_file_in_same_directory env original_file_path content suffix w =
     (let base_dir = dirname original_file_path;
          output_file_path = output_path original_file_path suffix
      in if base_dir = [] \<or> makedirs_fails env base_dir then (Inl (OSError base_dir), w)
         else (case write_file env output_file_path content w of
                 (Inl e, w') \<Rightarrow> (Inl e, w')
               | (Inr u, w') \<Rightarrow> (Inr output_file_path, print (''File saved: '' @ output_file_path) w')))"

definition prompt_text :: "string \<Rightarrow> string \<Rightarrow> string" where
  "prompt_text file_path file_content =
     [nl] @ ''Can you write a short page documenting this scrfipt? '' @ snd (splitext file_path)
     @ [nl] @ ''File content:'' @ [nl] @ file_content @ [nl]"

definition generate_documentation_with_openai ::
  "env \<Rightarrow> string \<Rightarrow> string \<Rightarrow> ('a world_scheme) \<Rightarrow> (error + reply) \<times> ('a world_scheme)" where
  \<comment> \<open>one request is posted; a failure of the post, of \<open>raise_for_status\<close>, of decoding
      the response or of reading \<open>choices[0].message.content\<close> is the service's \<open>Inl\<close>;
      the content read is returned as it is, text or not\<close>
  "generate_documentation_with_openai env file_path file_content w =
     (let p = prompt_text file_path file_content
      in (service env (length (api_calls w)) p, w\<lparr>api_calls := api_calls w @ [(file_path, p)]\<rparr>))"

section \<open>The Overview Assembler\<close>

fun overview_loop ::
  "(string \<times> reply) list \<Rightarrow> (string \<times> string list) list \<Rightarrow> string list \<Rightarrow> string list \<Rightarrow> error + string list" where
  \<comment> \<open>the \<open>for path in ...\<close> loop with \<open>lines\<close> as accumulator; \<open>docs\<close> and \<open>references\<close>
      are the parameters \<open>file_docs\<close> and \<open>file_references\<close>; \<open>doc_text.strip()\<close> raises
      \<open>AttributeError\<close> when \<open>doc_text\<close> is not a \<open>str\<close>\<close>
  "overview_loop docs references [] lines = Inr lines"
| "overview_loop docs references (path # paths) lines =
     (case dict_getitem docs path of
        Inl e \<Rightarrow> Inl e
      | Inr NotStr \<Rightarrow> Inl AttributeError
      | Inr (Str doc_text) \<Rightarrow>
          let refs = dict_get references path [];
              lines1 = lines @ [''## '' @ path] @ [[]] @ [''**Documentation**''] @ [[]]
                         @ [str_strip doc_text] @ [[]];
              lines2 = (if refs \<noteq> []
                        then foldl (\<lambda>ls r. ls @ [''- '' @ r])
                               (lines1 @ [''**References / Includes**''] @ [[]]) refs @ [[]]
                        else lines1)
          in overview_loop docs references paths lines2)"

definition overview_head :: "string list" where
  "overview_head =
     [''# Project Overview'', [],
      ''This document provides a high-level summary of the codebase, including file-by-file documentation and references.'',
      []]"

definition generate_overview_document ::
  "(string \<times> reply) list \<Rightarrow> (string \<times> string list) list \<Rightarrow> error + string" where
  "generate_overview_document docs references =
     (case overview_loop docs references (sort (dict_keys docs)) overview_head of
        Inl e \<Rightarrow> Inl e
      | Inr lines \<Rightarrow> Inr (str_join [nl] lines))"

section \<open>Main logic\<close>

definition relevant_files :: "string list \<Rightarrow> string list" where
  "relevant_files all_files =
     filter (\<lambda>f. str_lower (snd (splitext f)) \<in> set FILE_EXTENSIONS) all_files"

definition process_body :: "env \<Rightarrow> string \<Rightarrow> run \<Rightarrow> error option \<times> run" where
  \<comment> \<open>the body of the \<open>try\<close>: the exception raised, if any, and the state it leaves\<close>
  "process_body env file_path st =
     (case read_file_content st file_path of
        Inl e \<Rightarrow> (Some e, st)
      | Inr content \<Rightarrow>
          let st1 = print (''Read content of '' @ file_path @ '' successfully.'') st
          in (case generate_documentation_with_openai env file_path content st1 of
                (Inl e, st2) \<Rightarrow> (Some e, st2)
              | (Inr doc_text, st2) \<Rightarrow>
                  let st3 = print (''Generated documentation for '' @ file_path @ ''.'') st2;
                      st4 = st3\<lparr>file_docs := AList.update file_path doc_text (file_docs st3)\<rparr>;
                      refs = find_references_in_content file_path content;
                      st5 = st4\<lparr>file_references := AList.update file_path refs (file_references st4)\<rparr>;
                      st6 = print (''Found '' @ str_nat (length refs) @ '' references in '' @ file_path @ ''.'') st5
                  in (case save_file_in_same_directory env file_path doc_text ''_doc.txt'' st6 of
                        (Inl e, st7) \<Rightarrow> (Some e, st7)
                      | (Inr out, st7) \<Rightarrow> (None, st7))))"

definition process_file :: "env \<Rightarrow> string \<Rightarrow> run \<Rightarrow> run" where
  \<comment> \<open>one iteration of the loop over the relevant files: \<open>try\<close> ... \<open>except Exception\<close>\<close>
  "process_file env file_path st =
     (case process_body env file_path (print (''Processing file: '' @ file_path) st) of
        (Some e, st') \<Rightarrow> st'\<lparr>console := console st' @ [Failed file_path e]\<rparr>
      | (None, st') \<Rightarrow> st')"

definition process_files :: "env \<Rightarrow> string list \<Rightarrow> run \<Rightarrow> run" where
  "process_files env files st = foldl (\<lambda>s file_path. process_file env file_path s) st files"

definition loop_start :: "env \<Rightarrow> world \<Rightarrow> run" where
  \<comment> \<open>the state of \<open>main\<close> when the loop over the relevant files begins:
      \<open>file_docs = {}\<close> and \<open>file_references = {}\<close>\<close>
  "loop_start env w =
     (let w1 = print ''Traversing local repository...'' w;
          relevant = relevant_files (traverse_local_files env LOCAL_REPO_PATH);
          w2 = print (''Total relevant files found: '' @ str_nat (length relevant)) w1
      in world.extend w2 \<lparr>file_docs = [], file_references = []\<rparr>)"

definition at_assembly :: "env \<Rightarrow> world \<Rightarrow> run" where
  \<comment> \<open>the state of \<open>main\<close> when the loop over the relevant files has ended\<close>
  "at_assembly env w =
     process_files env (relevant_files (traverse_local_files env LOCAL_REPO_PATH)) (loop_start env w)"

definition main :: "env \<Rightarrow> world \<Rightarrow> error option \<times> world" where
  \<comment> \<open>the exception that ends the run, if any, and the world the run leaves\<close>
  "main env w =
     (let w1 = print ''Traversing local repository...'' w;
          all_files = traverse_local_files env LOCAL_REPO_PATH;
          relevant = relevant_files all_files
      in if relevant = [] then (None, print ''No relevant files found for processing.'' w1)
         else
          let st = at_assembly env w;
              w3 = print ''Generating overview document...'' (world.truncate st)
          in (case generate_overview_document (file_docs st) (file_references st) of
                Inl e \<Rightarrow> (Some e, w3)
              | Inr overview_text \<Rightarrow>
                  let overview_path = path_join LOCAL_REPO_PATH OVERVIEW_FILENAME
                  in (case write_file env overview_path (Str overview_text) w3 of
                        (Inl e, w4) \<Rightarrow> (Some e, w4)
                      | (Inr u, w4) \<Rightarrow>
                          (None, print ''All done.'' (print (''Overview saved: '' @ overview_path) w4)))))"

section \<open>Notions used to state the properties\<close>

definition php_example :: string where
  \<comment> \<open>\<open>include("a/b.php"); require_once('c.php');\<close>\<close>
  "php_example =
     ''include('' @ [dq] @ ''a/b.php'' @ [dq] @ ''); require_once('' @ [sq] @ ''c.php'' @ [sq] @ '');''"

definition sql_example :: string where
  \<comment> \<open>\<open>\i seed_data.sql;\<close>\<close>
  "sql_example = [bs] @ ''i seed_data.sql;''"

definition overview_section :: "string \<Rightarrow> string \<Rightarrow> string list \<Rightarrow> string list" where
  \<comment> \<open>the lines of one section as the specification describes them\<close>
  "overview_section path doc_text refs =
     [''## '' @ path, [], ''**Documentation**'', [], str_strip doc_text, []]
     @ (if refs = [] then []
        else [''**References / Includes**'', []] @ map (\<lambda>r. ''- '' @ r) refs @ [[]])"

definition overview_text :: "(string \<times> string) list \<Rightarrow> (string \<times> string list) list \<Rightarrow> string" where
  \<comment> \<open>the overview as the specification describes it: title and intro, then one section
      for each key of the docs mapping, the keys sorted\<close>
  "overview_text docs references =
     str_join [nl]
       (overview_head
        @ concat (map (\<lambda>path. overview_section path (dict_get docs path []) (dict_get references path []))
                      (sort (dict_keys docs))))"

definition text_docs :: "(string \<times> string) list \<Rightarrow> (string \<times> reply) list" where
  \<comment> \<open>a docs mapping whose values are all texts\<close>
  "text_docs docs = map (\<lambda>(path, doc_text). (path, Str doc_text)) docs"

definition doc_texts :: "(string \<times> reply) list \<Rightarrow> (string \<times> string) list" where
  \<comment> \<open>the texts of a docs mapping\<close>
  "doc_texts docs = map (\<lambda>(path, content). (path, text_of content)) docs"

definition requested :: "env \<Rightarrow> string \<Rightarrow> run \<Rightarrow> (error + reply) option" where
  \<comment> \<open>what the Documentation Requester answers for a file when the loop reaches the file in
      state \<open>st\<close>; \<open>None\<close> when reading the file raises, so that no request is made\<close>
  "requested env file_path st =
     (case read_file_content st file_path of
        Inl e \<Rightarrow> None
      | Inr content \<Rightarrow>
          Some (fst (generate_documentation_with_openai env file_path content
                  (print (''Read content of '' @ file_path @ '' successfully.'')
                     (print (''Processing file: '' @ file_path) st)))))"

definition documented :: "env \<Rightarrow> string \<Rightarrow> run \<Rightarrow> bool" where
  \<comment> \<open>reading the file and requesting its documentation both succeed\<close>
  "documented env file_path st =
     (case requested env file_path st of Some (Inr doc_text) \<Rightarrow> True | _ \<Rightarrow> False)"


definition new_calls :: "world \<Rightarrow> ('a world_scheme) \<Rightarrow> (string \<times> string) list" where
  \<comment> \<open>the requests posted between two states of one run\<close>
  "new_calls w w' = drop (length (api_calls w)) (api_calls w')"

definition new_writes :: "world \<Rightarrow> ('a world_scheme) \<Rightarrow> (string \<times> string) list" where
  \<comment> \<open>the files written between two states of one run\<close>
  "new_writes w w' = drop (length (writes w)) (writes w')"


text \<open>Concrete runs, used to instantiate the properties.\<close>

definition empty_world :: world where
  "empty_world = \<lparr>fs = Map.empty, console = [], api_calls = [], writes = []\<rparr>"

definition ex_world :: world where
  \<comment> \<open>three source files and an overview left by an earlier run\<close>
  "ex_world =
     \<lparr>fs = [''./b.sh'' \<mapsto> ''echo hi'', ''./dir/x.sql'' \<mapsto> sql_example,
            ''./dir/x.php'' \<mapsto> php_example, ''./PROJECT_OVERVIEW.md'' \<mapsto> ''old overview''],
      console = [], api_calls = [], writes = []\<rparr>"

definition ex_env :: env where
  \<comment> \<open>the first request of the run fails, the later ones succeed; every write succeeds\<close>
  "ex_env =
     \<lparr>walk = (\<lambda>p. [(''./'', [''dir''], [''b.sh'', ''README.md'']),
                    (''./dir'', [], [''x.sql'', ''x.php''])]),
      service = (\<lambda>n p. if n = 0 then Inl ServiceError else Inr (Str (''Doc '' @ str_nat n))),
      makedirs_fails = (\<lambda>p. False),
      write_denied = (\<lambda>p. False)\<rparr>"

definition quiet_env :: env where
  \<comment> \<open>a tree without any allow-listed file\<close>
  "quiet_env =
     \<lparr>walk = (\<lambda>p. [(''./'', [], [''README.md'', ''Makefile''])]),
      service = (\<lambda>n p. Inr (Str ''Doc'')),
      makedirs_fails = (\<lambda>p. False),
      write_denied = (\<lambda>p. False)\<rparr>"



definition null_env :: env where
  \<comment> \<open>one PHP file; the service answers with status 200 and the body
      \<open>{"choices": [{"message": {"content": null}}]}\<close>; every write is allowed\<close>
  "null_env =
     \<lparr>walk = (\<lambda>p. [(''./'', [], [''x.php''])]),
      service = (\<lambda>n p. Inr NotStr),
      makedirs_fails = (\<lambda>p. False),
      write_denied = (\<lambda>p. False)\<rparr>"

definition null_world :: world where
  \<comment> \<open>the PHP file and an overview left by an earlier run\<close>
  "null_world =
     \<lparr>fs = [''./x.php'' \<mapsto> php_example, ''./PROJECT_OVERVIEW.md'' \<mapsto> ''old overview''],
      console = [], api_calls = [], writes = []\<rparr>"

section \<open>Facts about the Overview Assembler\<close>

lemma foldl_bullets: "foldl (\<lambda>ls r. ls @ [f r]) acc refs = acc @ map f refs"
  by (induction refs arbitrary: acc) simp_all

lemma dict_keys_text_docs: "dict_keys (text_docs docs) = dict_keys docs"
  by (induction docs) (auto simp: dict_keys_def text_docs_def)

lemma map_of_text_docs: "map_of (text_docs docs) p = map_option Str (map_of docs p)"
  by (induction docs) (auto simp: text_docs_def)

lemma text_docs_doc_texts: "NotStr \<notin> snd ` set docs \<Longrightarrow> text_docs (doc_texts docs) = docs"
proof (induction docs)
  case Nil
  then show ?case by (simp add: text_docs_def doc_texts_def)
next
  case (Cons kv docs)
  obtain k v where kv: "kv = (k, v)" by (cases kv)
  with Cons.prems have "v \<noteq> NotStr" by auto
  then obtain t where "v = Str t" by (cases v) auto
  with Cons kv show ?case by (simp add: text_docs_def doc_texts_def text_of_def)
qed

lemma overview_loop_eq:
  "set paths \<subseteq> set (dict_keys docs) \<Longrightarrow>
   overview_loop (text_docs docs) references paths lines =
     Inr (lines @ concat (map (\<lambda>path. overview_section path (dict_get docs path []) (dict_get references path [])) paths))"
proof (induction paths arbitrary: lines)
  case Nil
  then show ?case by simp
next
  case (Cons p ps)
  from Cons.prems have "p \<in> fst ` set docs" by (simp add: dict_keys_def)
  then obtain v where v: "map_of docs p = Some v"
    by (metis domD dom_map_of_conv_image_fst)
  from Cons.prems have sub: "set ps \<subseteq> set (dict_keys docs)" by simp
  show ?case
    by (simp add: Cons.IH [OF sub] dict_getitem_def dict_get_def map_of_text_docs v
          overview_section_def foldl_bullets Let_def)
qed

lemma generate_overview_document_eq:
  "generate_overview_document (text_docs docs) references = Inr (overview_text docs references)"
  by (simp add: generate_overview_document_def overview_text_def overview_loop_eq dict_keys_text_docs)

lemma overview_loop_cong:
  "map_of d1 = map_of d2 \<Longrightarrow> map_of r1 = map_of r2 \<Longrightarrow>
   overview_loop d1 r1 paths lines = overview_loop d2 r2 paths lines"
  by (induction paths arbitrary: lines)
     (simp_all add: dict_getitem_def dict_get_def Let_def split: option.splits reply.splits)

lemma sort_keys_eq:
  assumes "distinct (dict_keys d1)" "distinct (dict_keys d2)" "map_of d1 = map_of d2"
  shows "sort (dict_keys d1) = sort (dict_keys d2)"
proof -
  have "set (dict_keys d1) = dom (map_of d1)" by (simp add: dict_keys_def dom_map_of_conv_image_fst)
  also have "\<dots> = set (dict_keys d2)" using assms(3) by (simp add: dict_keys_def dom_map_of_conv_image_fst)
  finally have "set (dict_keys d1) = set (dict_keys d2)" .
  then show ?thesis
    using assms(1,2) by (metis distinct_remdups_id sorted_list_of_set_sort_remdups)
qed

section \<open>Facts about the loop over the relevant files\<close>

lemma keys_update: "set (dict_keys (AList.update k v d)) = insert k (set (dict_keys d))"
  by (simp add: dict_keys_def dom_update)

lemma process_file_docs_keys:
  "set (dict_keys (file_docs (process_file env p st))) =
     (if documented env p st then insert p (set (dict_keys (file_docs st))) else set (dict_keys (file_docs st)))"
  by (auto simp: process_file_def process_body_def documented_def requested_def read_file_content_def
        generate_documentation_with_openai_def save_file_in_same_directory_def write_file_def
        print_def Let_def keys_update split: sum.splits prod.splits option.splits reply.splits)

lemma process_file_references_keys:
  "set (dict_keys (file_references (process_file env p st))) =
     (if documented env p st then insert p (set (dict_keys (file_references st)))
      else set (dict_keys (file_references st)))"
  by (auto simp: process_file_def process_body_def documented_def requested_def read_file_content_def
        generate_documentation_with_openai_def save_file_in_same_directory_def write_file_def
        print_def Let_def keys_update split: sum.splits prod.splits option.splits reply.splits)

lemma process_file_api_calls:
  "\<exists>new. api_calls (process_file env p st) = api_calls st @ new \<and> fst ` set new \<subseteq> {p}"
  by (auto simp: process_file_def process_body_def read_file_content_def
        generate_documentation_with_openai_def save_file_in_same_directory_def write_file_def
        print_def Let_def split: sum.splits prod.splits option.splits reply.splits)

lemma process_file_writes:
  "\<exists>new. writes (process_file env p st) = writes st @ new
         \<and> fst ` set new \<subseteq> {output_path p ''_doc.txt''}"
  by (auto simp: process_file_def process_body_def read_file_content_def
        generate_documentation_with_openai_def save_file_in_same_directory_def write_file_def
        print_def Let_def split: sum.splits prod.splits option.splits reply.splits)

lemma process_files_Nil: "process_files env [] st = st"
  by (simp add: process_files_def)

lemma process_files_Cons: "process_files env (p # ps) st = process_files env ps (process_file env p st)"
  by (simp add: process_files_def)


lemma process_files_docs_other:
  "X \<notin> set ps \<Longrightarrow>
   (X \<in> set (dict_keys (file_docs (process_files env ps st)))) = (X \<in> set (dict_keys (file_docs st)))"
  by (induction ps arbitrary: st) (auto simp: process_files_Nil process_files_Cons process_file_docs_keys)

lemma process_files_references_other:
  "X \<notin> set ps \<Longrightarrow>
   (X \<in> set (dict_keys (file_references (process_files env ps st))))
     = (X \<in> set (dict_keys (file_references st)))"
  by (induction ps arbitrary: st) (auto simp: process_files_Nil process_files_Cons process_file_references_keys)

lemma process_files_api_calls:
  "\<exists>new. api_calls (process_files env ps st) = api_calls st @ new \<and> fst ` set new \<subseteq> set ps"
proof (induction ps arbitrary: st)
  case Nil
  then show ?case by (simp add: process_files_Nil)
next
  case (Cons p ps)
  obtain n1 where n1: "api_calls (process_file env p st) = api_calls st @ n1" "fst ` set n1 \<subseteq> {p}"
    using process_file_api_calls by blast
  obtain n2 where n2: "api_calls (process_files env ps (process_file env p st))
      = api_calls (process_file env p st) @ n2" "fst ` set n2 \<subseteq> set ps"
    using Cons.IH by blast
  have "api_calls (process_files env (p # ps) st) = api_calls st @ (n1 @ n2)"
    by (simp add: process_files_Cons n1 n2)
  moreover have "fst ` set (n1 @ n2) \<subseteq> set (p # ps)"
    using n1(2) n2(2) by auto
  ultimately show ?case by blast
qed

lemma process_files_writes:
  "\<exists>new. writes (process_files env ps st) = writes st @ new
         \<and> fst ` set new \<subseteq> (\<lambda>p. output_path p ''_doc.txt'') ` set ps"
proof (induction ps arbitrary: st)
  case Nil
  then show ?case by (simp add: process_files_Nil)
next
  case (Cons p ps)
  obtain n1 where n1: "writes (process_file env p st) = writes st @ n1"
      "fst ` set n1 \<subseteq> {output_path p ''_doc.txt''}"
    using process_file_writes by blast
  obtain n2 where n2: "writes (process_files env ps (process_file env p st))
      = writes (process_file env p st) @ n2" "fst ` set n2 \<subseteq> (\<lambda>p. output_path p ''_doc.txt'') ` set ps"
    using Cons.IH by blast
  have "writes (process_files env (p # ps) st) = writes st @ (n1 @ n2)"
    by (simp add: process_files_Cons n1 n2)
  moreover have "fst ` set (n1 @ n2) \<subseteq> (\<lambda>p. output_path p ''_doc.txt'') ` set (p # ps)"
    using n1(2) n2(2) by auto
  ultimately show ?case by blast
qed

lemma path_join_last: "b \<noteq> [] \<Longrightarrow> last (path_join a b) = last b"
  by (simp add: path_join_def)

lemma output_path_last: "last (output_path p ''_doc.txt'') = CHR ''t''"
  by (simp add: output_path_def Let_def path_join_last)

lemma overview_path_eq: "path_join LOCAL_REPO_PATH OVERVIEW_FILENAME = ''./PROJECT_OVERVIEW.md''"
  by (simp add: path_join_def LOCAL_REPO_PATH_def OVERVIEW_FILENAME_def)

lemma output_path_not_overview: "output_path p ''_doc.txt'' \<noteq> ''./PROJECT_OVERVIEW.md''"
proof
  assume "output_path p ''_doc.txt'' = ''./PROJECT_OVERVIEW.md''"
  then have "last (output_path p ''_doc.txt'') = last ''./PROJECT_OVERVIEW.md''" by simp
  then show False by (simp add: output_path_last)
qed

lemma loop_start_fields:
  "api_calls (loop_start env w) = api_calls w" "writes (loop_start env w) = writes w"
  "file_docs (loop_start env w) = []" "file_references (loop_start env w) = []"
  by (simp_all add: loop_start_def print_def Let_def world.extend_def)


lemma relevant_files_ext:
  "p \<in> set (relevant_files all_files) \<Longrightarrow> str_lower (snd (splitext p)) \<in> set FILE_EXTENSIONS"
  by (simp add: relevant_files_def)

lemma process_files_docs_keys_subset:
  "set (dict_keys (file_docs (process_files env ps st))) \<subseteq> set (dict_keys (file_docs st)) \<union> set ps"
  using process_files_docs_other [of _ ps env st] by blast

lemma process_files_references_keys_subset:
  "set (dict_keys (file_references (process_files env ps st)))
     \<subseteq> set (dict_keys (file_references st)) \<union> set ps"
  using process_files_references_other [of _ ps env st] by blast

lemma at_assembly_new_calls:
  "fst ` set (new_calls w (at_assembly env w))
     \<subseteq> set (relevant_files (traverse_local_files env LOCAL_REPO_PATH))"
proof -
  obtain new where new: "api_calls (at_assembly env w) = api_calls (loop_start env w) @ new"
      "fst ` set new \<subseteq> set (relevant_files (traverse_local_files env LOCAL_REPO_PATH))"
    unfolding at_assembly_def using process_files_api_calls by blast
  then show ?thesis by (simp add: new_calls_def loop_start_fields)
qed

lemma at_assembly_new_writes:
  "fst ` set (new_writes w (at_assembly env w))
     \<subseteq> (\<lambda>p. output_path p ''_doc.txt'') ` set (relevant_files (traverse_local_files env LOCAL_REPO_PATH))"
proof -
  obtain new where new: "writes (at_assembly env w) = writes (loop_start env w) @ new"
      "fst ` set new \<subseteq> (\<lambda>p. output_path p ''_doc.txt'') ` set (relevant_files (traverse_local_files env LOCAL_REPO_PATH))"
    unfolding at_assembly_def using process_files_writes by blast
  then show ?thesis by (simp add: new_writes_def loop_start_fields)
qed

lemma main_api_calls:
  "api_calls (snd (main env w))
     = (if relevant_files (traverse_local_files env LOCAL_REPO_PATH) = [] then api_calls w
        else api_calls (at_assembly env w))"
  by (auto simp: main_def write_file_def print_def Let_def world.truncate_def
        split: sum.splits)

section \<open>Facts about the matcher\<close>


declare matches.simps(8) [simp del]


























section \<open>Properties of the Reference Scanner\<close>








text \<open>
  Claim C7. For a path whose lower-cased extension is neither \<open>.php\<close> nor \<open>.sql\<close> (a
  \<open>.sh\<close> file, for one) the scanner returns the empty list, whatever the content.
\<close>

theorem scanner_other:
  assumes "str_lower (snd (splitext file_path)) \<noteq> ''.php''"
      and "str_lower (snd (splitext file_path)) \<noteq> ''.sql''"
  shows "find_references_in_content file_path content = []"
  using assms by (simp add: find_references_in_content_def Let_def)

theorem scanner_other_witness:
  "str_lower (snd (splitext ''bin/deploy.sh'')) \<noteq> ''.php''
   \<and> str_lower (snd (splitext ''bin/deploy.sh'')) \<noteq> ''.sql''
   \<and> find_references_in_content ''bin/deploy.sh'' php_example = []"
proof -
  have h1: "str_lower (snd (splitext ''bin/deploy.sh'')) \<noteq> ''.php''" by code_simp
  have h2: "str_lower (snd (splitext ''bin/deploy.sh'')) \<noteq> ''.sql''" by code_simp
  show ?thesis using h1 h2 scanner_other [OF h1 h2, of php_example] by blast
qed

section \<open>Properties of the Orchestrator\<close>

text \<open>
  Claim C4. When no walked file has an allow-listed extension, \<open>main\<close> returns after
  printing its message: the lines printed are the traversal line and the message, no
  request is posted, no file is written (neither a per-file documentation nor the
  overview), and the files are as they were.
\<close>

theorem early_exit:
  assumes "relevant_files (traverse_local_files env LOCAL_REPO_PATH) = []"
  shows "main env w = (None, w\<lparr>console := console w @ [Text ''Traversing local repository...'',
                      Text ''No relevant files found for processing.'']\<rparr>)"
  using assms by (simp add: main_def print_def Let_def)

theorem early_exit_witness:
  "relevant_files (traverse_local_files quiet_env LOCAL_REPO_PATH) = []
   \<and> main quiet_env empty_world
       = (None, empty_world\<lparr>console := console empty_world @ [Text ''Traversing local repository...'',
                   Text ''No relevant files found for processing.'']\<rparr>)"
proof -
  have h: "relevant_files (traverse_local_files quiet_env LOCAL_REPO_PATH) = []" by code_simp
  show ?thesis using h early_exit [OF h, of empty_world] by blast
qed

text \<open>
  Claim C3. A file whose lower-cased extension is not on the allow-list is not among the
  relevant files, no request of the run is made for it, and it is a key of neither
  dictionary when the overview is assembled; this holds for every walk.
\<close>

theorem irrelevant_untouched:
  assumes "str_lower (snd (splitext p)) \<notin> set FILE_EXTENSIONS"
  shows "p \<notin> set (relevant_files (traverse_local_files env LOCAL_REPO_PATH))
         \<and> p \<notin> fst ` set (new_calls w (snd (main env w)))
         \<and> p \<notin> set (dict_keys (file_docs (at_assembly env w)))
         \<and> p \<notin> set (dict_keys (file_references (at_assembly env w)))"
proof -
  let ?rel = "relevant_files (traverse_local_files env LOCAL_REPO_PATH)"
  have rel: "p \<notin> set ?rel" using assms relevant_files_ext by blast
  have "fst ` set (new_calls w (snd (main env w))) \<subseteq> set ?rel"
    using at_assembly_new_calls [of w env] by (simp add: new_calls_def main_api_calls)
  then have calls: "p \<notin> fst ` set (new_calls w (snd (main env w)))" using rel by blast
  have docs: "p \<notin> set (dict_keys (file_docs (at_assembly env w)))"
    using rel process_files_docs_keys_subset [of env ?rel "loop_start env w"]
    by (auto simp: at_assembly_def loop_start_fields dict_keys_def)
  have refs: "p \<notin> set (dict_keys (file_references (at_assembly env w)))"
    using rel process_files_references_keys_subset [of env ?rel "loop_start env w"]
    by (auto simp: at_assembly_def loop_start_fields dict_keys_def)
  show ?thesis using rel calls docs refs by blast
qed

theorem irrelevant_untouched_witness:
  "str_lower (snd (splitext ''./README.md'')) \<notin> set FILE_EXTENSIONS
   \<and> ''./README.md'' \<in> set (traverse_local_files ex_env LOCAL_REPO_PATH)
   \<and> ''./README.md'' \<notin> fst ` set (new_calls ex_world (snd (main ex_env ex_world)))
   \<and> ''./README.md'' \<notin> set (dict_keys (file_docs (at_assembly ex_env ex_world)))
   \<and> ''./README.md'' \<notin> set (dict_keys (file_references (at_assembly ex_env ex_world)))"
proof -
  have h: "str_lower (snd (splitext ''./README.md'')) \<notin> set FILE_EXTENSIONS" by code_simp
  have w: "''./README.md'' \<in> set (traverse_local_files ex_env LOCAL_REPO_PATH)" by code_simp
  show ?thesis using h w irrelevant_untouched [OF h, of ex_env ex_world] by blast
qed

text \<open>
  When at least one relevant file exists and every documentation stored in the loop is a
  text, the overview is written once, after the loop and whatever failed in it: the write
  to \<open>./PROJECT_OVERVIEW.md\<close> is the last write of the run, no write of the loop goes to
  that path, no request follows the loop, and the text written is the assembled overview.
  The file then holds that text, whatever it held before, unless the file system refuses
  the write, in which case the run ends with that error.
\<close>

lemma overview_written_when_text:
  assumes "relevant_files (traverse_local_files env LOCAL_REPO_PATH) \<noteq> []"
      and "NotStr \<notin> snd ` set (file_docs (at_assembly env w))"
  shows "writes (snd (main env w))
           = writes (at_assembly env w)
             @ [(''./PROJECT_OVERVIEW.md'',
                 overview_text (doc_texts (file_docs (at_assembly env w)))
                   (file_references (at_assembly env w)))]
         \<and> ''./PROJECT_OVERVIEW.md'' \<notin> fst ` set (new_writes w (at_assembly env w))
         \<and> api_calls (snd (main env w)) = api_calls (at_assembly env w)
         \<and> (if write_denied env ''./PROJECT_OVERVIEW.md''
            then fst (main env w) = Some (OSError ''./PROJECT_OVERVIEW.md'')
            else fst (main env w) = None
                 \<and> fs (snd (main env w)) ''./PROJECT_OVERVIEW.md''
                     = Some (overview_text (doc_texts (file_docs (at_assembly env w)))
                               (file_references (at_assembly env w))))"
proof -
  have once: "''./PROJECT_OVERVIEW.md'' \<notin> fst ` set (new_writes w (at_assembly env w))"
    using at_assembly_new_writes [of w env] output_path_not_overview by force
  have gen: "generate_overview_document (file_docs (at_assembly env w)) (file_references (at_assembly env w))
               = Inr (overview_text (doc_texts (file_docs (at_assembly env w)))
                        (file_references (at_assembly env w)))"
    using generate_overview_document_eq [of "doc_texts (file_docs (at_assembly env w))"]
    by (simp add: text_docs_doc_texts [OF assms(2)])
  show ?thesis
    using assms(1) once
    by (simp add: main_def gen write_file_def text_of_def print_def Let_def
          world.truncate_def overview_path_eq)
qed

text \<open>
  Claim C2. The claim asks for the overview to be written whenever a relevant file
  exists, whatever failed for the single files. The script does not do so when the
  service answers with a content that is not a text. In this run the only relevant file
  is \<open>./x.php\<close> and the reply to its request has the content \<open>null\<close>: the value is stored in
  \<open>file_docs\<close>, the per-file write empties \<open>./x_doc.txt\<close> and raises \<open>TypeError\<close>, which is
  caught, and then \<open>generate_overview_document\<close> raises \<open>AttributeError\<close> outside the
  \<open>try\<close>. The run ends with that error; nothing is written to \<open>./PROJECT_OVERVIEW.md\<close>,
  which keeps the text of the earlier run.
\<close>

theorem null_reply_loses_overview:
  "relevant_files (traverse_local_files null_env LOCAL_REPO_PATH) = [''./x.php'']
   \<and> file_docs (at_assembly null_env null_world) = [(''./x.php'', NotStr)]
   \<and> generate_overview_document (file_docs (at_assembly null_env null_world))
         (file_references (at_assembly null_env null_world)) = Inl AttributeError
   \<and> (let r = main null_env null_world in
       fst r = Some AttributeError
       \<and> new_writes null_world (snd r) = [(''./x_doc.txt'', [])]
       \<and> fs (snd r) ''./PROJECT_OVERVIEW.md'' = Some ''old overview''
       \<and> console (snd r)
           = [Text ''Traversing local repository...'',
              Text ''Total relevant files found: 1'',
              Text ''Processing file: ./x.php'',
              Text ''Read content of ./x.php successfully.'',
              Text ''Generated documentation for ./x.php.'',
              Text ''Found 2 references in ./x.php.'',
              Failed ''./x.php'' TypeError,
              Text ''Generating overview document...''])"
  by code_simp




section \<open>Properties of the Overview Assembler\<close>

text \<open>
  Claim C8. The overview is a function of the two mappings alone: two docs dictionaries
  with the same entries and two references dictionaries with the same entries, in
  whatever order the entries were inserted, give the same text (and the same exception
  when a documentation is not a text). The assembler only reads its arguments (\<open>keys\<close>,
  indexing and \<open>get\<close>), so the embedding returns the text and nothing else.
\<close>

theorem overview_deterministic:
  assumes "distinct (dict_keys d1)" "distinct (dict_keys d2)" "map_of d1 = map_of d2" "map_of r1 = map_of r2"
  shows "generate_overview_document d1 r1 = generate_overview_document d2 r2"
  using assms
  by (simp add: generate_overview_document_def sort_keys_eq [OF assms(1,2,3)]
        overview_loop_cong [OF assms(3,4)])

theorem overview_deterministic_witness:
  "distinct (dict_keys [(''b'', Str ''x''), (''a'', Str ''y'')])
   \<and> distinct (dict_keys [(''a'', Str ''y''), (''b'', Str ''x'')])
   \<and> map_of [(''b'', Str ''x''), (''a'', Str ''y'')] = map_of [(''a'', Str ''y''), (''b'', Str ''x'')]
   \<and> generate_overview_document [(''b'', Str ''x''), (''a'', Str ''y'')] [(''a'', [''r''])]
       = generate_overview_document [(''a'', Str ''y''), (''b'', Str ''x'')] [(''a'', [''r''])]"
proof -
  have h1: "distinct (dict_keys [(''b'', Str ''x''), (''a'', Str ''y'')])" by (simp add: dict_keys_def)
  have h2: "distinct (dict_keys [(''a'', Str ''y''), (''b'', Str ''x'')])" by (simp add: dict_keys_def)
  have h3: "map_of [(''b'', Str ''x''), (''a'', Str ''y'')] = map_of [(''a'', Str ''y''), (''b'', Str ''x'')]"
    by (auto simp: fun_eq_iff)
  have h4: "map_of [(''a'', [''r''])] = map_of [(''a'', [''r''])]" by simp
  show ?thesis using h1 h2 h3 overview_deterministic [OF h1 h2 h3 h4] by blast
qed



section \<open>Properties of the Per-File Writer\<close>

text \<open>
  Claim C10. The output path forgets the extension: \<open>dir/x.sql\<close> and \<open>dir/x.php\<close> are both
  allow-listed and both are documented in \<open>dir/x_doc.txt\<close>. In the example run both files
  are processed without any failure, both documentation texts are written to
  \<open>./dir/x_doc.txt\<close>, and the file ends with the text of the file processed last.
\<close>

theorem output_path_collision:
  "''dir/x.sql'' \<noteq> ''dir/x.php''
   \<and> relevant_files [''dir/x.sql'', ''dir/x.php''] = [''dir/x.sql'', ''dir/x.php'']
   \<and> output_path ''dir/x.sql'' ''_doc.txt'' = ''dir/x_doc.txt''
   \<and> output_path ''dir/x.php'' ''_doc.txt'' = ''dir/x_doc.txt''
   \<and> relevant_files (traverse_local_files ex_env LOCAL_REPO_PATH)
       = [''./b.sh'', ''./dir/x.sql'', ''./dir/x.php'']
   \<and> (let r = main ex_env ex_world in
       fst r = None
       \<and> take 2 (new_writes ex_world (snd r))
           = [(''./dir/x_doc.txt'', ''Doc 1''), (''./dir/x_doc.txt'', ''Doc 2'')]
       \<and> fs (snd r) ''./dir/x_doc.txt'' = Some ''Doc 2''
       \<and> console (snd r)
       = [Text ''Traversing local repository...'',
          Text ''Total relevant files found: 3'',
          Text ''Processing file: ./b.sh'',
          Text ''Read content of ./b.sh successfully.'',
          Failed ''./b.sh'' ServiceError,
          Text ''Processing file: ./dir/x.sql'',
          Text ''Read content of ./dir/x.sql successfully.'',
          Text ''Generated documentation for ./dir/x.sql.'',
          Text ''Found 1 references in ./dir/x.sql.'',
          Text ''File saved: ./dir/x_doc.txt'',
          Text ''Processing file: ./dir/x.php'',
          Text ''Read content of ./dir/x.php successfully.'',
          Text ''Generated documentation for ./dir/x.php.'',
          Text ''Found 2 references in ./dir/x.php.'',
          Text ''File saved: ./dir/x_doc.txt'',
          Text ''Generating overview document...'',
          Text ''Overview saved: ./PROJECT_OVERVIEW.md'',
          Text ''All done.''])"
  by code_simp

end
